theory Spec2Isabelle
  imports Main
begin

section \<open>Solidity 0.8 values: unsigned integers, addresses, reverts\<close>

text \<open>
  The contracts are compiled with \<^verbatim>\<open>pragma solidity ^0.8.24\<close>: every \<^verbatim>\<open>uint256\<close>
  operation outside an \<^verbatim>\<open>unchecked\<close> block is checked and reverts with
  \<^verbatim>\<open>Panic(0x11)\<close> when its mathematical result leaves the range \<open>0 .. 2^256 - 1\<close>.
  A \<^verbatim>\<open>uint256\<close> is modelled as a natural number and each checked operation returns
  either the revert reason or the result. An \<^verbatim>\<open>address\<close> is the number it encodes,
  \<^verbatim>\<open>address(0)\<close> being \<open>0\<close>. A reverted call leaves the storage as it was, so a
  failing operation returns only its error and the caller keeps the state it passed in.
  Every subtraction of the sources stands behind a comparison that rules the underflow
  out, so it is the subtraction of natural numbers. Block times are \<^verbatim>\<open>uint256\<close> as well.
\<close>

type_synonym uint256 = nat
type_synonym address = nat

definition UINT256_MAX :: nat where
  "UINT256_MAX = 2 ^ 256 - 1"

datatype error =
    Panic_Overflow
  | Panic_DivisionByZero
  | OwnableUnauthorizedAccount
  | OwnableInvalidOwner
  | WeightsMustSumTo100
  | AllocationChangeTooLarge
  | TransferFailed
  | HealthCheckFailed
  | DonationCooldownNotMet
  | InvalidDonationAddress
  | ERC20InsufficientBalance
  | ERC20InsufficientAllowance
  | ERC20InvalidSender
  | ERC20InvalidReceiver
  | ERC20InvalidApprover
  | ERC20InvalidSpender
  | ERC4626ExceededMaxDeposit
  | ERC4626ExceededMaxMint
  | ERC4626ExceededMaxWithdraw
  | ERC4626ExceededMaxRedeem
  | MathOverflowedMulDiv

definition and_then :: "error + 'a \<Rightarrow> ('a \<Rightarrow> error + 'b) \<Rightarrow> error + 'b" where
  "and_then r f = (case r of Inl e \<Rightarrow> Inl e | Inr x \<Rightarrow> f x)"

definition checked_add :: "uint256 \<Rightarrow> uint256 \<Rightarrow> error + uint256" where
  "checked_add a b = (if a + b \<le> UINT256_MAX then Inr (a + b) else Inl Panic_Overflow)"

definition checked_mul :: "uint256 \<Rightarrow> uint256 \<Rightarrow> error + uint256" where
  "checked_mul a b = (if a * b \<le> UINT256_MAX then Inr (a * b) else Inl Panic_Overflow)"

definition checked_div :: "uint256 \<Rightarrow> uint256 \<Rightarrow> error + uint256" where
  "checked_div a b = (if b = 0 then Inl Panic_DivisionByZero else Inr (a div b))"


section \<open>HealthCheck (utils/HealthCheck.sol)\<close>

text \<open>\<^verbatim>\<open>isHealthy\<close> is the placeholder of the source: it returns true for every manager.\<close>

definition isHealthy :: "address \<Rightarrow> bool" where
  "isHealthy manager = True"

text \<open>
  \<^verbatim>\<open>validateAllocation\<close> is \<^verbatim>\<open>external pure\<close>. The sum
  \<^verbatim>\<open>aave + morpho + spark + uniswap\<close> is evaluated left to right with checked additions.
\<close>

definition validateAllocation ::
  "uint256 \<Rightarrow> uint256 \<Rightarrow> uint256 \<Rightarrow> uint256 \<Rightarrow> error + bool" where
  "validateAllocation w_aave w_morpho w_spark w_uniswap =
     and_then (checked_add w_aave w_morpho) (\<lambda>t1.
     and_then (checked_add t1 w_spark) (\<lambda>t2.
     and_then (checked_add t2 w_uniswap) (\<lambda>total.
       if total \<noteq> 10000 then Inr False
       else if w_aave > 8000 \<or> w_morpho > 8000 \<or> w_spark > 8000 \<or> w_uniswap > 8000
         then Inr False
       else if w_aave < 500 \<or> w_morpho < 500 \<or> w_spark < 500 \<or> w_uniswap < 500
         then Inr False
       else Inr True)))"


section \<open>StrategyManager (core/StrategyManager.sol)\<close>

record AllocationWeights =
  aave :: uint256
  morpho :: uint256
  spark :: uint256
  uniswap :: uint256

text \<open>
  The storage of the contract, with the address of the contract itself
  (\<^verbatim>\<open>address(this)\<close>) and the owner that \<^verbatim>\<open>Ownable\<close> keeps.
\<close>

record StrategyManager =
  vault :: address
  asset :: address
  aaveAdapter :: address
  morphoAdapter :: address
  sparkAdapter :: address
  uniswapAdapter :: address
  currentAllocation :: AllocationWeights
  healthCheck :: address
  initialized :: bool
  manager_owner :: address
  manager_address :: address

definition MAX_REBALANCE_DELTA :: uint256 where
  "MAX_REBALANCE_DELTA = 2000"

definition BASIS_POINTS :: uint256 where
  "BASIS_POINTS = 10000"

text \<open>
  \<^verbatim>\<open>setAllocationWeights\<close>: the \<^verbatim>\<open>onlyOwner\<close> modifier, the sum requirement, the
  delta requirement of an initialized manager, then the store. The event it emits touches no
  storage and is left out.
\<close>

definition setAllocationWeights ::
  "address \<Rightarrow> AllocationWeights \<Rightarrow> StrategyManager \<Rightarrow> error + StrategyManager" where
  "setAllocationWeights msg_sender weights m =
     (if manager_owner m \<noteq> msg_sender then Inl OwnableUnauthorizedAccount
      else
        and_then (checked_add (aave weights) (morpho weights)) (\<lambda>t1.
        and_then (checked_add t1 (spark weights)) (\<lambda>t2.
        and_then (checked_add t2 (uniswap weights)) (\<lambda>total.
          if total \<noteq> BASIS_POINTS then Inl WeightsMustSumTo100
          else if initialized m then
            (let aaveDelta =
               (if aave weights > aave (currentAllocation m)
                then aave weights - aave (currentAllocation m)
                else aave (currentAllocation m) - aave weights)
             in if aaveDelta \<le> MAX_REBALANCE_DELTA
                then Inr (m\<lparr>currentAllocation := weights\<rparr>)
                else Inl AllocationChangeTooLarge)
          else Inr (m\<lparr>initialized := True, currentAllocation := weights\<rparr>)))))"


text \<open>
  \<^verbatim>\<open>rebalance\<close> talks to other contracts: it reads \<^verbatim>\<open>vault.totalAssets()\<close> and the four
  \<^verbatim>\<open>balanceOf()\<close> of the adapters, and then issues state-changing calls. The reads all
  happen before the first state-changing call, so they are arguments of the model. The
  state-changing calls are values of \<open>ext_call\<close>, handed in source order to \<open>perform\<close>,
  the rest of the chain: it answers with a revert, or with the boolean the call returns
  and the next state of the world \<open>'w\<close>. A revert of a callee reverts \<^verbatim>\<open>rebalance\<close>.
\<close>

datatype ext_call =
    Asset_transferFrom address address uint256
  | Asset_approve address uint256
  | Adapter_deposit address uint256
  | Adapter_withdraw address uint256

text \<open>
  \<^verbatim>\<open>_rebalanceStrategy\<close> (an Isabelle name cannot start with an underscore). The
  \<^verbatim>\<open>StrategyRebalanced\<close> events are left out.
\<close>

definition rebalanceStrategy ::
  "(ext_call \<Rightarrow> 'w \<Rightarrow> error + bool \<times> 'w) \<Rightarrow> StrategyManager \<Rightarrow> address \<Rightarrow> uint256 \<Rightarrow> uint256
     \<Rightarrow> 'w \<Rightarrow> error + 'w" where
  "rebalanceStrategy perform m strategy current target w =
     (if target > current then
        (let depositAmount = target - current in
         and_then (perform (Asset_transferFrom (vault m) (manager_address m) depositAmount) w)
           (\<lambda>(ok, w1).
         if \<not> ok then Inl TransferFailed
         else
         and_then (perform (Asset_approve strategy depositAmount) w1) (\<lambda>(approved, w2).
         if strategy = aaveAdapter m then
           and_then (perform (Adapter_deposit (aaveAdapter m) depositAmount) w2)
             (\<lambda>(r, w3). Inr w3)
         else if strategy = morphoAdapter m then
           and_then (perform (Adapter_deposit (morphoAdapter m) depositAmount) w2)
             (\<lambda>(r, w3). Inr w3)
         else if strategy = sparkAdapter m then
           and_then (perform (Adapter_deposit (sparkAdapter m) depositAmount) w2)
             (\<lambda>(r, w3). Inr w3)
         else if strategy = uniswapAdapter m then
           and_then (perform (Adapter_deposit (uniswapAdapter m) depositAmount) w2)
             (\<lambda>(r, w3). Inr w3)
         else Inr w2)))
      else if target < current then
        (let withdrawAmount = current - target;
             sharesToWithdraw = withdrawAmount in
         if strategy = aaveAdapter m then
           and_then (perform (Adapter_withdraw (aaveAdapter m) sharesToWithdraw) w)
             (\<lambda>(r, w1). Inr w1)
         else if strategy = morphoAdapter m then
           and_then (perform (Adapter_withdraw (morphoAdapter m) sharesToWithdraw) w)
             (\<lambda>(r, w1). Inr w1)
         else if strategy = sparkAdapter m then
           and_then (perform (Adapter_withdraw (sparkAdapter m) sharesToWithdraw) w)
             (\<lambda>(r, w1). Inr w1)
         else if strategy = uniswapAdapter m then
           and_then (perform (Adapter_withdraw (uniswapAdapter m) sharesToWithdraw) w)
             (\<lambda>(r, w1). Inr w1)
         else Inr w)
      else Inr w)"

text \<open>
  \<^verbatim>\<open>rebalance\<close>: \<open>totalAssets\<close> is what \<^verbatim>\<open>vault.totalAssets()\<close> returned, and
  \<open>currentAave\<close>, \<open>currentMorpho\<close>, \<open>currentSpark\<close>, \<open>currentUniswap\<close> what the
  adapters' \<^verbatim>\<open>balanceOf()\<close> returned. The products are checked multiplications.
\<close>

definition rebalance ::
  "(ext_call \<Rightarrow> 'w \<Rightarrow> error + bool \<times> 'w) \<Rightarrow> address \<Rightarrow> StrategyManager \<Rightarrow> uint256
     \<Rightarrow> uint256 \<Rightarrow> uint256 \<Rightarrow> uint256 \<Rightarrow> uint256 \<Rightarrow> 'w \<Rightarrow> error + 'w" where
  "rebalance perform msg_sender m totalAssets currentAave currentMorpho currentSpark
       currentUniswap w =
     (if manager_owner m \<noteq> msg_sender then Inl OwnableUnauthorizedAccount
      else
        and_then (checked_mul totalAssets (aave (currentAllocation m))) (\<lambda>pAave.
        and_then (checked_div pAave BASIS_POINTS) (\<lambda>targetAave.
        and_then (checked_mul totalAssets (morpho (currentAllocation m))) (\<lambda>pMorpho.
        and_then (checked_div pMorpho BASIS_POINTS) (\<lambda>targetMorpho.
        and_then (checked_mul totalAssets (spark (currentAllocation m))) (\<lambda>pSpark.
        and_then (checked_div pSpark BASIS_POINTS) (\<lambda>targetSpark.
        and_then (checked_mul totalAssets (uniswap (currentAllocation m))) (\<lambda>pUniswap.
        and_then (checked_div pUniswap BASIS_POINTS) (\<lambda>targetUniswap.
        and_then (rebalanceStrategy perform m (aaveAdapter m) currentAave targetAave w)
          (\<lambda>w1.
        and_then (rebalanceStrategy perform m (morphoAdapter m) currentMorpho targetMorpho w1)
          (\<lambda>w2.
        and_then (rebalanceStrategy perform m (sparkAdapter m) currentSpark targetSpark w2)
          (\<lambda>w3.
        and_then (rebalanceStrategy perform m (uniswapAdapter m) currentUniswap targetUniswap w3)
          (\<lambda>w4.
        if isHealthy (manager_address m) then Inr w4 else Inl HealthCheckFailed)))))))))))))"

text \<open>
  Two ways to read what \<^verbatim>\<open>rebalance\<close> does. In the recording world every call succeeds
  and is appended to the list of the calls issued so far. \<open>run_calls\<close> hands a planned list
  of calls to any world, stopping at the first revert or at a \<^verbatim>\<open>transferFrom\<close> that
  returns false.
\<close>

definition record_call :: "ext_call \<Rightarrow> ext_call list \<Rightarrow> error + bool \<times> ext_call list" where
  "record_call c issued = Inr (True, issued @ [c])"

fun run_calls ::
  "(ext_call \<Rightarrow> 'w \<Rightarrow> error + bool \<times> 'w) \<Rightarrow> ext_call list \<Rightarrow> 'w \<Rightarrow> error + 'w" where
  "run_calls perform [] w = Inr w"
| "run_calls perform (c # cs) w =
     (case perform c w of
        Inl e \<Rightarrow> Inl e
      | Inr (ok, w1) \<Rightarrow>
          (case c of
             Asset_transferFrom src dst amount \<Rightarrow>
               if ok then run_calls perform cs w1 else Inl TransferFailed
           | Asset_approve spender amount \<Rightarrow> run_calls perform cs w1
           | Adapter_deposit adapter amount \<Rightarrow> run_calls perform cs w1
           | Adapter_withdraw adapter amount \<Rightarrow> run_calls perform cs w1))"

text \<open>
  The rebalancing rule in the words of the specification: the target of a venue is
  \<open>floor (totalValue * weight / WHOLE)\<close>; a venue below its target receives a deposit of
  the difference (pulled from the vault and approved first), a venue above its target is
  asked to withdraw the difference, a venue on target is left alone.
\<close>

definition target_amount :: "nat \<Rightarrow> nat \<Rightarrow> nat" where
  "target_amount totalValue weight = totalValue * weight div 10000"

definition venue_calls :: "StrategyManager \<Rightarrow> address \<Rightarrow> nat \<Rightarrow> nat \<Rightarrow> ext_call list" where
  "venue_calls m venue current target =
     (if target > current then
        [Asset_transferFrom (vault m) (manager_address m) (target - current),
         Asset_approve venue (target - current),
         Adapter_deposit venue (target - current)]
      else if target < current then [Adapter_withdraw venue (current - target)]
      else [])"

definition rebalance_plan ::
  "StrategyManager \<Rightarrow> nat \<Rightarrow> nat \<Rightarrow> nat \<Rightarrow> nat \<Rightarrow> nat \<Rightarrow> ext_call list" where
  "rebalance_plan m totalValue currentAave currentMorpho currentSpark currentUniswap =
     venue_calls m (aaveAdapter m) currentAave
       (target_amount totalValue (aave (currentAllocation m)))
     @ venue_calls m (morphoAdapter m) currentMorpho
       (target_amount totalValue (morpho (currentAllocation m)))
     @ venue_calls m (sparkAdapter m) currentSpark
       (target_amount totalValue (spark (currentAllocation m)))
     @ venue_calls m (uniswapAdapter m) currentUniswap
       (target_amount totalValue (uniswap (currentAllocation m)))"


section \<open>The ERC-20 ledger (OpenZeppelin Contracts v5, \<^verbatim>\<open>ERC20.sol\<close>)\<close>

text \<open>
  Modelled from the spec: the ERC-20 token contract is not among the sources of the
  repository. The vault holds an ERC-20 asset and is itself the ERC-20 token of its shares;
  both are the \<^verbatim>\<open>ERC20\<close> of OpenZeppelin Contracts v5 that the vault imports (the asset of
  the deployment script and of the tests is \<^verbatim>\<open>ERC20Mock\<close>). The specification says only
  that a deposit moves the asset into the custody of the pool and that a release transfers
  it to the recipient, so the definitions follow the library: \<^verbatim>\<open>_update\<close> debits the
  sender and then credits the receiver, \<^verbatim>\<open>_transfer\<close>, \<^verbatim>\<open>_mint\<close>, \<^verbatim>\<open>_burn\<close> and
  \<^verbatim>\<open>_approve\<close> refuse the zero address, \<^verbatim>\<open>_spendAllowance\<close> leaves an unlimited
  allowance as it is. The additions to a balance are \<^verbatim>\<open>unchecked\<close> there: a balance never
  exceeds the total supply, whose own addition is checked, so they cannot wrap and no
  wrap-around is written out.
\<close>

record ERC20 =
  balances :: "address \<Rightarrow> uint256"
  allowances :: "address \<Rightarrow> address \<Rightarrow> uint256"
  tokenSupply :: uint256

definition ERC20_update :: "address \<Rightarrow> address \<Rightarrow> uint256 \<Rightarrow> ERC20 \<Rightarrow> error + ERC20" where
  "ERC20_update src dst amount t =
     and_then
       (if src = 0 then
          and_then (checked_add (tokenSupply t) amount) (\<lambda>total. Inr (t\<lparr>tokenSupply := total\<rparr>))
        else if balances t src < amount then Inl ERC20InsufficientBalance
        else Inr (t\<lparr>balances := (balances t)(src := balances t src - amount)\<rparr>))
       (\<lambda>t1.
          if dst = 0 then Inr (t1\<lparr>tokenSupply := tokenSupply t1 - amount\<rparr>)
          else Inr (t1\<lparr>balances := (balances t1)(dst := balances t1 dst + amount)\<rparr>))"

definition ERC20_transfer_internal ::
  "address \<Rightarrow> address \<Rightarrow> uint256 \<Rightarrow> ERC20 \<Rightarrow> error + ERC20" where
  "ERC20_transfer_internal src dst amount t =
     (if src = 0 then Inl ERC20InvalidSender
      else if dst = 0 then Inl ERC20InvalidReceiver
      else ERC20_update src dst amount t)"

definition ERC20_mint :: "address \<Rightarrow> uint256 \<Rightarrow> ERC20 \<Rightarrow> error + ERC20" where
  "ERC20_mint account amount t =
     (if account = 0 then Inl ERC20InvalidReceiver else ERC20_update 0 account amount t)"

definition ERC20_burn :: "address \<Rightarrow> uint256 \<Rightarrow> ERC20 \<Rightarrow> error + ERC20" where
  "ERC20_burn account amount t =
     (if account = 0 then Inl ERC20InvalidSender else ERC20_update account 0 amount t)"

definition ERC20_approve_internal ::
  "address \<Rightarrow> address \<Rightarrow> uint256 \<Rightarrow> ERC20 \<Rightarrow> error + ERC20" where
  "ERC20_approve_internal holder spender amount t =
     (if holder = 0 then Inl ERC20InvalidApprover
      else if spender = 0 then Inl ERC20InvalidSpender
      else Inr (t\<lparr>allowances := (allowances t)(holder := (allowances t holder)(spender := amount))\<rparr>))"

definition ERC20_spendAllowance ::
  "address \<Rightarrow> address \<Rightarrow> uint256 \<Rightarrow> ERC20 \<Rightarrow> error + ERC20" where
  "ERC20_spendAllowance holder spender amount t =
     (let currentAllowance = allowances t holder spender in
      if currentAllowance \<noteq> UINT256_MAX then
        (if currentAllowance < amount then Inl ERC20InsufficientAllowance
         else ERC20_approve_internal holder spender (currentAllowance - amount) t)
      else Inr t)"

text \<open>The two external entry points; \<open>msg_sender\<close> is the caller of the token.\<close>

definition ERC20_transfer :: "address \<Rightarrow> address \<Rightarrow> uint256 \<Rightarrow> ERC20 \<Rightarrow> error + ERC20" where
  "ERC20_transfer msg_sender dst amount t = ERC20_transfer_internal msg_sender dst amount t"

definition ERC20_transferFrom ::
  "address \<Rightarrow> address \<Rightarrow> address \<Rightarrow> uint256 \<Rightarrow> ERC20 \<Rightarrow> error + ERC20" where
  "ERC20_transferFrom msg_sender src dst amount t =
     and_then (ERC20_spendAllowance src msg_sender amount t)
       (\<lambda>t1. ERC20_transfer_internal src dst amount t1)"


section \<open>YieldDonatingVault (core/YieldDonatingVault.sol)\<close>

text \<open>
  The storage of the vault and the ledger of the asset token it reads and moves:
  \<open>totalUserDeposits\<close> is \<^verbatim>\<open>_totalUserDeposits\<close>, \<open>share_token\<close> the ERC-20 state the
  vault inherits, \<open>vault_address\<close> is \<^verbatim>\<open>address(this)\<close>.
\<close>

record YieldDonatingVault =
  asset_token :: ERC20
  share_token :: ERC20
  donationAddress :: address
  totalUserDeposits :: uint256
  lastDonationTimestamp :: uint256
  vault_owner :: address
  vault_address :: address

definition MIN_DONATION_INTERVAL :: uint256 where
  "MIN_DONATION_INTERVAL = 86400"

subsection \<open>The inherited ERC-4626 base (OpenZeppelin Contracts v5, \<^verbatim>\<open>ERC4626.sol\<close>)\<close>

text \<open>
  Modelled from the spec: the base contract \<^verbatim>\<open>ERC4626\<close> of OpenZeppelin Contracts v5 is
  not among the sources of the repository. The specification reads the total value from
  the ledger and leaves share pricing to the base, so the definitions follow the library.
  The vault overrides neither \<^verbatim>\<open>totalAssets\<close> nor the conversions: \<^verbatim>\<open>totalAssets()\<close> is
  the asset balance of the vault, the decimals offset is 0, and \<^verbatim>\<open>Math.mulDiv\<close>
  computes \<open>floor (x * y / denominator)\<close> on the full product, reverting when the
  quotient does not fit 256 bits. \<^verbatim>\<open>maxDeposit\<close> and \<^verbatim>\<open>maxMint\<close> are \<open>2^256 - 1\<close>.
\<close>

datatype Rounding = Floor | Ceil

definition mulDiv :: "uint256 \<Rightarrow> uint256 \<Rightarrow> uint256 \<Rightarrow> Rounding \<Rightarrow> error + uint256" where
  "mulDiv x y denominator rounding =
     and_then
       (if x * y \<le> UINT256_MAX then checked_div (x * y) denominator
        else if denominator \<le> x * y div 2 ^ 256 then Inl MathOverflowedMulDiv
        else Inr (x * y div denominator))
       (\<lambda>result.
          if rounding = Ceil \<and> x * y mod denominator > 0 then checked_add result 1
          else Inr result)"

definition totalAssets :: "YieldDonatingVault \<Rightarrow> uint256" where
  "totalAssets v = balances (asset_token v) (vault_address v)"

definition totalSupply :: "YieldDonatingVault \<Rightarrow> uint256" where
  "totalSupply v = tokenSupply (share_token v)"

definition balanceOf :: "YieldDonatingVault \<Rightarrow> address \<Rightarrow> uint256" where
  "balanceOf v account = balances (share_token v) account"

definition convertToShares :: "YieldDonatingVault \<Rightarrow> uint256 \<Rightarrow> Rounding \<Rightarrow> error + uint256" where
  "convertToShares v assets rounding =
     and_then (checked_add (totalSupply v) 1) (\<lambda>s.
     and_then (checked_add (totalAssets v) 1) (\<lambda>a. mulDiv assets s a rounding))"

definition convertToAssets :: "YieldDonatingVault \<Rightarrow> uint256 \<Rightarrow> Rounding \<Rightarrow> error + uint256" where
  "convertToAssets v shares rounding =
     and_then (checked_add (totalAssets v) 1) (\<lambda>a.
     and_then (checked_add (totalSupply v) 1) (\<lambda>s. mulDiv shares a s rounding))"

definition previewDeposit :: "YieldDonatingVault \<Rightarrow> uint256 \<Rightarrow> error + uint256" where
  "previewDeposit v assets = convertToShares v assets Floor"

definition previewMint :: "YieldDonatingVault \<Rightarrow> uint256 \<Rightarrow> error + uint256" where
  "previewMint v shares = convertToAssets v shares Ceil"

definition previewWithdraw :: "YieldDonatingVault \<Rightarrow> uint256 \<Rightarrow> error + uint256" where
  "previewWithdraw v assets = convertToShares v assets Ceil"

definition previewRedeem :: "YieldDonatingVault \<Rightarrow> uint256 \<Rightarrow> error + uint256" where
  "previewRedeem v shares = convertToAssets v shares Floor"

definition maxWithdraw :: "YieldDonatingVault \<Rightarrow> address \<Rightarrow> error + uint256" where
  "maxWithdraw v holder = convertToAssets v (balanceOf v holder) Floor"

definition maxRedeem :: "YieldDonatingVault \<Rightarrow> address \<Rightarrow> uint256" where
  "maxRedeem v holder = balanceOf v holder"

text \<open>
  \<^verbatim>\<open>_deposit\<close> and \<^verbatim>\<open>_withdraw\<close>: the vault is the caller of the asset token, so it is
  the spender of \<^verbatim>\<open>safeTransferFrom\<close> and the sender of \<^verbatim>\<open>safeTransfer\<close>.
\<close>

definition ERC4626_deposit_internal ::
  "address \<Rightarrow> address \<Rightarrow> uint256 \<Rightarrow> uint256 \<Rightarrow> YieldDonatingVault \<Rightarrow> error + YieldDonatingVault"
  where
  "ERC4626_deposit_internal caller receiver assets shares v =
     and_then (ERC20_transferFrom (vault_address v) caller (vault_address v) assets
                 (asset_token v)) (\<lambda>a1.
     and_then (ERC20_mint receiver shares (share_token v)) (\<lambda>s1.
     Inr (v\<lparr>asset_token := a1, share_token := s1\<rparr>)))"

definition ERC4626_withdraw_internal ::
  "address \<Rightarrow> address \<Rightarrow> address \<Rightarrow> uint256 \<Rightarrow> uint256 \<Rightarrow> YieldDonatingVault
     \<Rightarrow> error + YieldDonatingVault" where
  "ERC4626_withdraw_internal caller receiver holder assets shares v =
     and_then (if caller \<noteq> holder then ERC20_spendAllowance holder caller shares (share_token v)
               else Inr (share_token v)) (\<lambda>s1.
     and_then (ERC20_burn holder shares s1) (\<lambda>s2.
     and_then (ERC20_transfer (vault_address v) receiver assets (asset_token v)) (\<lambda>a1.
     Inr (v\<lparr>asset_token := a1, share_token := s2\<rparr>))))"

definition ERC4626_deposit ::
  "address \<Rightarrow> uint256 \<Rightarrow> address \<Rightarrow> YieldDonatingVault \<Rightarrow> error + uint256 \<times> YieldDonatingVault"
  where
  "ERC4626_deposit msg_sender assets receiver v =
     (if assets > UINT256_MAX then Inl ERC4626ExceededMaxDeposit
      else
        and_then (previewDeposit v assets) (\<lambda>shares.
        and_then (ERC4626_deposit_internal msg_sender receiver assets shares v) (\<lambda>v1.
        Inr (shares, v1))))"

definition ERC4626_mint ::
  "address \<Rightarrow> uint256 \<Rightarrow> address \<Rightarrow> YieldDonatingVault \<Rightarrow> error + uint256 \<times> YieldDonatingVault"
  where
  "ERC4626_mint msg_sender shares receiver v =
     (if shares > UINT256_MAX then Inl ERC4626ExceededMaxMint
      else
        and_then (previewMint v shares) (\<lambda>assets.
        and_then (ERC4626_deposit_internal msg_sender receiver assets shares v) (\<lambda>v1.
        Inr (assets, v1))))"

definition ERC4626_withdraw ::
  "address \<Rightarrow> uint256 \<Rightarrow> address \<Rightarrow> address \<Rightarrow> YieldDonatingVault
     \<Rightarrow> error + uint256 \<times> YieldDonatingVault" where
  "ERC4626_withdraw msg_sender assets receiver holder v =
     and_then (maxWithdraw v holder) (\<lambda>maxAssets.
     if assets > maxAssets then Inl ERC4626ExceededMaxWithdraw
     else
       and_then (previewWithdraw v assets) (\<lambda>shares.
       and_then (ERC4626_withdraw_internal msg_sender receiver holder assets shares v) (\<lambda>v1.
       Inr (shares, v1))))"

definition ERC4626_redeem ::
  "address \<Rightarrow> uint256 \<Rightarrow> address \<Rightarrow> address \<Rightarrow> YieldDonatingVault
     \<Rightarrow> error + uint256 \<times> YieldDonatingVault" where
  "ERC4626_redeem msg_sender shares receiver holder v =
     (if shares > maxRedeem v holder then Inl ERC4626ExceededMaxRedeem
      else
        and_then (previewRedeem v shares) (\<lambda>assets.
        and_then (ERC4626_withdraw_internal msg_sender receiver holder assets shares v) (\<lambda>v1.
        Inr (assets, v1))))"

subsection \<open>The functions the vault declares\<close>

definition setDonationAddress ::
  "address \<Rightarrow> address \<Rightarrow> YieldDonatingVault \<Rightarrow> error + YieldDonatingVault" where
  "setDonationAddress msg_sender newAddress v =
     (if vault_owner v \<noteq> msg_sender then Inl OwnableUnauthorizedAccount
      else if \<not> (newAddress \<noteq> 0) then Inl InvalidDonationAddress
      else Inr (v\<lparr>donationAddress := newAddress\<rparr>))"

definition deposit ::
  "address \<Rightarrow> uint256 \<Rightarrow> address \<Rightarrow> YieldDonatingVault \<Rightarrow> error + uint256 \<times> YieldDonatingVault"
  where
  "deposit msg_sender assets receiver v =
     and_then (ERC4626_deposit msg_sender assets receiver v) (\<lambda>(shares, v1).
     and_then (checked_add (totalUserDeposits v1) assets) (\<lambda>d.
     Inr (shares, v1\<lparr>totalUserDeposits := d\<rparr>)))"

definition mint ::
  "address \<Rightarrow> uint256 \<Rightarrow> address \<Rightarrow> YieldDonatingVault \<Rightarrow> error + uint256 \<times> YieldDonatingVault"
  where
  "mint msg_sender shares receiver v =
     and_then (ERC4626_mint msg_sender shares receiver v) (\<lambda>(assets, v1).
     and_then (checked_add (totalUserDeposits v1) assets) (\<lambda>d.
     Inr (assets, v1\<lparr>totalUserDeposits := d\<rparr>)))"

text \<open>
  \<^verbatim>\<open>withdraw\<close> and \<^verbatim>\<open>redeem\<close> start with the same block, which reduces the tracked
  principal in proportion to the assets leaving; \<open>reduceUserDeposits\<close> is that block.
\<close>

definition reduceUserDeposits :: "uint256 \<Rightarrow> YieldDonatingVault \<Rightarrow> error + YieldDonatingVault"
  where
  "reduceUserDeposits assets v =
     (let totalAssets' = totalAssets v in
      if totalAssets' > 0 then
        and_then (checked_mul (totalUserDeposits v) assets) (\<lambda>product.
        and_then (checked_div product totalAssets') (\<lambda>proportionalDeposits.
          if proportionalDeposits \<le> totalUserDeposits v
          then Inr (v\<lparr>totalUserDeposits := totalUserDeposits v - proportionalDeposits\<rparr>)
          else Inr v))
      else Inr v)"

definition withdraw ::
  "address \<Rightarrow> uint256 \<Rightarrow> address \<Rightarrow> address \<Rightarrow> YieldDonatingVault
     \<Rightarrow> error + uint256 \<times> YieldDonatingVault" where
  "withdraw msg_sender assets receiver holder v =
     and_then (reduceUserDeposits assets v) (\<lambda>v1.
     ERC4626_withdraw msg_sender assets receiver holder v1)"

definition redeem ::
  "address \<Rightarrow> uint256 \<Rightarrow> address \<Rightarrow> address \<Rightarrow> YieldDonatingVault
     \<Rightarrow> error + uint256 \<times> YieldDonatingVault" where
  "redeem msg_sender shares receiver holder v =
     and_then (previewRedeem v shares) (\<lambda>assets.
     and_then (reduceUserDeposits assets v) (\<lambda>v1.
     ERC4626_redeem msg_sender shares receiver holder v1))"

text \<open>
  \<^verbatim>\<open>donateYield\<close> at block time \<open>timestamp\<close>; anyone may call it. The value that
  \<^verbatim>\<open>transfer\<close> returns is ignored by the source; a revert of the token reverts the call.
\<close>

definition donateYield :: "uint256 \<Rightarrow> YieldDonatingVault \<Rightarrow> error + uint256 \<times> YieldDonatingVault"
  where
  "donateYield timestamp v =
     and_then (checked_add (lastDonationTimestamp v) MIN_DONATION_INTERVAL) (\<lambda>earliest.
     if \<not> (timestamp \<ge> earliest) then Inl DonationCooldownNotMet
     else
       (let totalAssets' = totalAssets v in
        if totalAssets' \<le> totalUserDeposits v then Inr (0, v)
        else
          (let donatedAmount = totalAssets' - totalUserDeposits v in
           and_then (ERC20_transfer (vault_address v) (donationAddress v) donatedAmount
                       (asset_token v)) (\<lambda>a1.
           Inr (donatedAmount, v\<lparr>asset_token := a1, lastDonationTimestamp := timestamp\<rparr>)))))"

definition getAccumulatedYield :: "YieldDonatingVault \<Rightarrow> uint256" where
  "getAccumulatedYield v =
     (let totalAssets' = totalAssets v in
      if totalAssets' \<le> totalUserDeposits v then 0
      else totalAssets' - totalUserDeposits v)"

definition transferToStrategyManager ::
  "address \<Rightarrow> uint256 \<Rightarrow> YieldDonatingVault \<Rightarrow> error + YieldDonatingVault" where
  "transferToStrategyManager msg_sender amount v =
     (if vault_owner v \<noteq> msg_sender then Inl OwnableUnauthorizedAccount
      else
        and_then (ERC20_transfer (vault_address v) msg_sender amount (asset_token v)) (\<lambda>a1.
        Inr (v\<lparr>asset_token := a1\<rparr>)))"

subsection \<open>The functions the vault inherits unchanged\<close>

text \<open>
  Modelled from the spec: \<^verbatim>\<open>Ownable\<close> of OpenZeppelin Contracts v5 is not among the
  sources either; the specification restricts the administrative operations to one
  authorized caller. These are the share token's \<^verbatim>\<open>transfer\<close>, \<^verbatim>\<open>approve\<close> and
  \<^verbatim>\<open>transferFrom\<close> (ERC20, above) and \<^verbatim>\<open>transferOwnership\<close> and
  \<^verbatim>\<open>renounceOwnership\<close> (Ownable).
\<close>

definition transfer ::
  "address \<Rightarrow> address \<Rightarrow> uint256 \<Rightarrow> YieldDonatingVault \<Rightarrow> error + YieldDonatingVault" where
  "transfer msg_sender dst amount v =
     and_then (ERC20_transfer msg_sender dst amount (share_token v)) (\<lambda>s1.
     Inr (v\<lparr>share_token := s1\<rparr>))"

definition approve ::
  "address \<Rightarrow> address \<Rightarrow> uint256 \<Rightarrow> YieldDonatingVault \<Rightarrow> error + YieldDonatingVault" where
  "approve msg_sender spender amount v =
     and_then (ERC20_approve_internal msg_sender spender amount (share_token v)) (\<lambda>s1.
     Inr (v\<lparr>share_token := s1\<rparr>))"

definition transferFrom ::
  "address \<Rightarrow> address \<Rightarrow> address \<Rightarrow> uint256 \<Rightarrow> YieldDonatingVault
     \<Rightarrow> error + YieldDonatingVault" where
  "transferFrom msg_sender src dst amount v =
     and_then (ERC20_transferFrom msg_sender src dst amount (share_token v)) (\<lambda>s1.
     Inr (v\<lparr>share_token := s1\<rparr>))"

definition transferOwnership ::
  "address \<Rightarrow> address \<Rightarrow> YieldDonatingVault \<Rightarrow> error + YieldDonatingVault" where
  "transferOwnership msg_sender newOwner v =
     (if vault_owner v \<noteq> msg_sender then Inl OwnableUnauthorizedAccount
      else if newOwner = 0 then Inl OwnableInvalidOwner
      else Inr (v\<lparr>vault_owner := newOwner\<rparr>))"

definition renounceOwnership :: "address \<Rightarrow> YieldDonatingVault \<Rightarrow> error + YieldDonatingVault"
  where
  "renounceOwnership msg_sender v =
     (if vault_owner v \<noteq> msg_sender then Inl OwnableUnauthorizedAccount
      else Inr (v\<lparr>vault_owner := 0\<rparr>))"

subsection \<open>Transactions\<close>

text \<open>
  Every state-changing function the vault exposes, declared or inherited, as one
  transaction: \<open>msg_sender\<close> calls at block time \<open>timestamp\<close>.
\<close>

datatype vault_call =
    Deposit uint256 address
  | Mint uint256 address
  | Withdraw uint256 address address
  | Redeem uint256 address address
  | DonateYield
  | SetDonationAddress address
  | TransferToStrategyManager uint256
  | Transfer address uint256
  | Approve address uint256
  | TransferFrom address address uint256
  | TransferOwnership address
  | RenounceOwnership

definition execute ::
  "address \<Rightarrow> uint256 \<Rightarrow> vault_call \<Rightarrow> YieldDonatingVault \<Rightarrow> error + YieldDonatingVault" where
  "execute msg_sender timestamp call v =
     (case call of
        Deposit assets receiver \<Rightarrow>
          and_then (deposit msg_sender assets receiver v) (\<lambda>(r, v1). Inr v1)
      | Mint shares receiver \<Rightarrow>
          and_then (mint msg_sender shares receiver v) (\<lambda>(r, v1). Inr v1)
      | Withdraw assets receiver holder \<Rightarrow>
          and_then (withdraw msg_sender assets receiver holder v) (\<lambda>(r, v1). Inr v1)
      | Redeem shares receiver holder \<Rightarrow>
          and_then (redeem msg_sender shares receiver holder v) (\<lambda>(r, v1). Inr v1)
      | DonateYield \<Rightarrow> and_then (donateYield timestamp v) (\<lambda>(r, v1). Inr v1)
      | SetDonationAddress newAddress \<Rightarrow> setDonationAddress msg_sender newAddress v
      | TransferToStrategyManager amount \<Rightarrow> transferToStrategyManager msg_sender amount v
      | Transfer dst amount \<Rightarrow> transfer msg_sender dst amount v
      | Approve spender amount \<Rightarrow> approve msg_sender spender amount v
      | TransferFrom src dst amount \<Rightarrow> transferFrom msg_sender src dst amount v
      | TransferOwnership newOwner \<Rightarrow> transferOwnership msg_sender newOwner v
      | RenounceOwnership \<Rightarrow> renounceOwnership msg_sender v)"


text \<open>
  The withdrawal rule of the ledger in the words of the specification: with a positive
  total value, the principal drops by \<open>floor (totalPrincipal * amount / totalValue)\<close>,
  unless that would underflow, in which case it stays.
\<close>

definition principal_after_withdrawal :: "nat \<Rightarrow> nat \<Rightarrow> nat \<Rightarrow> nat" where
  "principal_after_withdrawal totalPrincipal amount totalValue =
     (let proportionalPrincipal = totalPrincipal * amount div totalValue in
      if proportionalPrincipal \<le> totalPrincipal then totalPrincipal - proportionalPrincipal
      else totalPrincipal)"


section \<open>Example states\<close>

text \<open>
  A manager owned by account 1 whose four adapters are the contracts 11 to 14, before and
  after its first allocation of 40%, 30%, 20% and 10%.
\<close>

definition fresh_manager :: StrategyManager where
  "fresh_manager =
     \<lparr>vault = 2, asset = 3, aaveAdapter = 11, morphoAdapter = 12, sparkAdapter = 13,
      uniswapAdapter = 14,
      currentAllocation = \<lparr>aave = 0, morpho = 0, spark = 0, uniswap = 0\<rparr>,
      healthCheck = 15, initialized = False, manager_owner = 1, manager_address = 10\<rparr>"

definition example_manager :: StrategyManager where
  "example_manager =
     fresh_manager\<lparr>currentAllocation := \<lparr>aave = 4000, morpho = 3000, spark = 2000, uniswap = 1000\<rparr>,
                   initialized := True\<rparr>"

text \<open>
  A vault at address 2, owned by account 1, donating to account 9, deployed at time 1000.
  In \<open>fresh_vault\<close> nothing is deposited yet; account 7 holds 1000 of the asset and has
  given the vault an unlimited allowance. \<open>example_vault\<close> is what the deposit of 100 by
  account 7 leaves, and \<open>yield_vault\<close> what minting 10 of the asset to the vault then
  leaves (the way the tests simulate yield).
\<close>

definition fresh_vault :: YieldDonatingVault where
  "fresh_vault =
     \<lparr>asset_token =
        \<lparr>balances = (\<lambda>a. 0)(7 := 1000),
         allowances = (\<lambda>a b. 0)(7 := (\<lambda>b. 0)(2 := UINT256_MAX)),
         tokenSupply = 1000\<rparr>,
      share_token = \<lparr>balances = (\<lambda>a. 0), allowances = (\<lambda>a b. 0), tokenSupply = 0\<rparr>,
      donationAddress = 9, totalUserDeposits = 0, lastDonationTimestamp = 1000,
      vault_owner = 1, vault_address = 2\<rparr>"

definition example_vault :: YieldDonatingVault where
  "example_vault =
     \<lparr>asset_token =
        \<lparr>balances = (\<lambda>a. 0)(7 := 900, 2 := 100),
         allowances = (\<lambda>a b. 0)(7 := (\<lambda>b. 0)(2 := UINT256_MAX)),
         tokenSupply = 1000\<rparr>,
      share_token =
        \<lparr>balances = (\<lambda>a. 0)(7 := 100), allowances = (\<lambda>a b. 0), tokenSupply = 100\<rparr>,
      donationAddress = 9, totalUserDeposits = 100, lastDonationTimestamp = 1000,
      vault_owner = 1, vault_address = 2\<rparr>"

definition yield_vault :: YieldDonatingVault where
  "yield_vault =
     example_vault
       \<lparr>asset_token :=
          \<lparr>balances = (\<lambda>a. 0)(7 := 900, 2 := 110),
           allowances = (\<lambda>a b. 0)(7 := (\<lambda>b. 0)(2 := UINT256_MAX)),
           tokenSupply = 1010\<rparr>\<rparr>"

text \<open>
  What the calls of the examples below leave: \<open>withdrawn_vault\<close> after account 7
  withdraws 40 from \<open>example_vault\<close> to itself, \<open>self_withdrawn_vault\<close> after the same
  withdrawal with the vault as receiver, \<open>pulled_vault\<close> after the owner pulls 40 with
  \<^verbatim>\<open>transferToStrategyManager\<close>, \<open>donated_vault\<close> after the yield of \<open>yield_vault\<close> is
  donated at time 100000, and \<open>self_donating_vault\<close> after the owner of \<open>yield_vault\<close>
  names the vault itself as the donation address.
\<close>

definition withdrawn_vault :: YieldDonatingVault where
  "withdrawn_vault =
     example_vault
       \<lparr>asset_token :=
          \<lparr>balances = (\<lambda>a. 0)(2 := 60, 7 := 940),
           allowances = (\<lambda>a b. 0)(7 := (\<lambda>b. 0)(2 := UINT256_MAX)),
           tokenSupply = 1000\<rparr>,
        share_token :=
          \<lparr>balances = (\<lambda>a. 0)(7 := 60), allowances = (\<lambda>a b. 0), tokenSupply = 60\<rparr>,
        totalUserDeposits := 60\<rparr>"

definition self_withdrawn_vault :: YieldDonatingVault where
  "self_withdrawn_vault =
     example_vault
       \<lparr>share_token :=
          \<lparr>balances = (\<lambda>a. 0)(7 := 60), allowances = (\<lambda>a b. 0), tokenSupply = 60\<rparr>,
        totalUserDeposits := 60\<rparr>"

definition pulled_vault :: YieldDonatingVault where
  "pulled_vault =
     example_vault
       \<lparr>asset_token :=
          \<lparr>balances = (\<lambda>a. 0)(7 := 900, 2 := 60, 1 := 40),
           allowances = (\<lambda>a b. 0)(7 := (\<lambda>b. 0)(2 := UINT256_MAX)),
           tokenSupply = 1000\<rparr>\<rparr>"

definition donated_vault :: YieldDonatingVault where
  "donated_vault =
     example_vault
       \<lparr>asset_token :=
          \<lparr>balances = (\<lambda>a. 0)(7 := 900, 2 := 100, 9 := 10),
           allowances = (\<lambda>a b. 0)(7 := (\<lambda>b. 0)(2 := UINT256_MAX)),
           tokenSupply = 1010\<rparr>,
        lastDonationTimestamp := 100000\<rparr>"

definition self_donating_vault :: YieldDonatingVault where
  "self_donating_vault = yield_vault\<lparr>donationAddress := 2\<rparr>"


section \<open>Reverts and sequencing\<close>

lemma and_then_eq_Inr:
  "(and_then r f = Inr y) = (\<exists>x. r = Inr x \<and> f x = Inr y)"
  by (cases r) (simp_all add: and_then_def)

lemma weight_sum_steps:
  "and_then (checked_add a b) (\<lambda>t1.
     and_then (checked_add t1 c) (\<lambda>t2. and_then (checked_add t2 d) f)) =
     (if a + b + c + d \<le> UINT256_MAX then f (a + b + c + d) else Inl Panic_Overflow)"
  by (simp add: checked_add_def and_then_def)

lemma basis_points_fit: "(10000::nat) \<le> UINT256_MAX"
  by (simp add: UINT256_MAX_def)


section \<open>The validator\<close>

text \<open>
  C8. \<^verbatim>\<open>validateAllocation\<close> depends on its four arguments only. It returns true exactly
  when they sum to 10000 and each lies between 500 and 8000. It returns false for every
  other vector whose sum fits 256 bits; when the sum overflows, the checked addition
  reverts and no verdict is returned, so a vector whose sum is not 10000 is never accepted.
\<close>

theorem validateAllocation_verdict:
  "(validateAllocation a m s u = Inr True) =
     (a + m + s + u = 10000 \<and> a \<le> 8000 \<and> m \<le> 8000 \<and> s \<le> 8000 \<and> u \<le> 8000
       \<and> 500 \<le> a \<and> 500 \<le> m \<and> 500 \<le> s \<and> 500 \<le> u)
   \<and> validateAllocation a m s u =
     (if a + m + s + u \<le> UINT256_MAX
      then Inr (a + m + s + u = 10000 \<and> a \<le> 8000 \<and> m \<le> 8000 \<and> s \<le> 8000 \<and> u \<le> 8000
       \<and> 500 \<le> a \<and> 500 \<le> m \<and> 500 \<le> s \<and> 500 \<le> u)
      else Inl Panic_Overflow)"
proof -
  have verdict: "validateAllocation a m s u =
     (if a + m + s + u \<le> UINT256_MAX
      then Inr (a + m + s + u = 10000 \<and> a \<le> 8000 \<and> m \<le> 8000 \<and> s \<le> 8000 \<and> u \<le> 8000
       \<and> 500 \<le> a \<and> 500 \<le> m \<and> 500 \<le> s \<and> 500 \<le> u)
      else Inl Panic_Overflow)"
    unfolding validateAllocation_def weight_sum_steps by auto
  show ?thesis using basis_points_fit by (auto simp: verdict)
qed

theorem validateAllocation_verdict_witness:
  "validateAllocation 4000 3000 2000 1000 = Inr True
   \<and> validateAllocation 9000 500 250 250 = Inr False
   \<and> validateAllocation 4000 3000 2000 999 = Inr False"
  using validateAllocation_verdict [of 4000 3000 2000 1000]
    validateAllocation_verdict [of 9000 500 250 250]
    validateAllocation_verdict [of 4000 3000 2000 999]
  by (simp add: UINT256_MAX_def)

text \<open>
  C8, as stated, calls the function total. On the well-formed vector
  \<open>(2^256 - 1, 1, 0, 0)\<close> the first addition overflows and the call reverts.
\<close>

theorem validateAllocation_overflow_reverts:
  "validateAllocation UINT256_MAX 1 0 0 = Inl Panic_Overflow"
  by (simp add: validateAllocation_def checked_add_def and_then_def UINT256_MAX_def)


section \<open>Weight updates of the manager\<close>

lemma setAllocationWeights_by_owner:
  "setAllocationWeights (manager_owner m) weights m =
     (if UINT256_MAX < aave weights + morpho weights + spark weights + uniswap weights
        then Inl Panic_Overflow
      else if aave weights + morpho weights + spark weights + uniswap weights \<noteq> 10000
        then Inl WeightsMustSumTo100
      else if \<not> initialized m
        then Inr (m\<lparr>initialized := True, currentAllocation := weights\<rparr>)
      else if aave weights \<le> aave (currentAllocation m) + 2000
           \<and> aave (currentAllocation m) \<le> aave weights + 2000
        then Inr (m\<lparr>currentAllocation := weights\<rparr>)
      else Inl AllocationChangeTooLarge)"
  unfolding setAllocationWeights_def weight_sum_steps
  by (auto simp: BASIS_POINTS_def MAX_REBALANCE_DELTA_def Let_def)

text \<open>
  C1. On an initialized manager holding 40/30/20/10 the owner proposes 40/60/0/0. The
  weight of Morpho moves by 3000 basis points, more than \<open>MAX_REBALANCE_DELTA\<close>, and the
  update is accepted and stored: the source computes and checks the delta of Aave only.
\<close>

theorem setAllocationWeights_checks_aave_only:
  "setAllocationWeights 1 \<lparr>aave = 4000, morpho = 6000, spark = 0, uniswap = 0\<rparr> example_manager
     = Inr (example_manager\<lparr>currentAllocation :=
              \<lparr>aave = 4000, morpho = 6000, spark = 0, uniswap = 0\<rparr>\<rparr>)"
proof -
  have owner: "manager_owner example_manager = 1"
    by (simp add: example_manager_def fresh_manager_def)
  show ?thesis
    using setAllocationWeights_by_owner
      [of example_manager "\<lparr>aave = 4000, morpho = 6000, spark = 0, uniswap = 0\<rparr>"]
    by (simp add: owner)
      (simp add: example_manager_def fresh_manager_def UINT256_MAX_def)
qed

text \<open>
  C10. The owner's first vector is accepted and stored whenever its entries sum to 10000,
  whatever the entries are: \<^verbatim>\<open>setAllocationWeights\<close> applies neither the ceiling of 8000
  nor the floor of 500 of the validator.
\<close>

theorem first_weights_skip_bounds:
  assumes "aave weights + morpho weights + spark weights + uniswap weights = 10000"
    and "\<not> initialized m"
  shows "setAllocationWeights (manager_owner m) weights m
           = Inr (m\<lparr>initialized := True, currentAllocation := weights\<rparr>)"
  using assms basis_points_fit by (simp add: setAllocationWeights_by_owner)

theorem first_weights_skip_bounds_witness:
  "setAllocationWeights 1 \<lparr>aave = 10000, morpho = 0, spark = 0, uniswap = 0\<rparr> fresh_manager
     = Inr (fresh_manager\<lparr>initialized := True,
              currentAllocation := \<lparr>aave = 10000, morpho = 0, spark = 0, uniswap = 0\<rparr>\<rparr>)
   \<and> validateAllocation 10000 0 0 0 = Inr False"
proof -
  have owner: "manager_owner fresh_manager = 1" and fresh: "\<not> initialized fresh_manager"
    by (simp_all add: fresh_manager_def)
  have "setAllocationWeights (manager_owner fresh_manager)
          \<lparr>aave = 10000, morpho = 0, spark = 0, uniswap = 0\<rparr> fresh_manager
     = Inr (fresh_manager\<lparr>initialized := True,
              currentAllocation := \<lparr>aave = 10000, morpho = 0, spark = 0, uniswap = 0\<rparr>\<rparr>)"
    using first_weights_skip_bounds
      [of "\<lparr>aave = 10000, morpho = 0, spark = 0, uniswap = 0\<rparr>" fresh_manager] fresh
    by simp
  moreover have "validateAllocation 10000 0 0 0 = Inr False"
    by (simp add: validateAllocation_def checked_add_def and_then_def UINT256_MAX_def)
  ultimately show ?thesis by (simp add: owner)
qed


section \<open>Rebalancing\<close>

lemma run_calls_append:
  "run_calls perform (xs @ ys) w = and_then (run_calls perform xs w) (run_calls perform ys)"
proof (induction xs arbitrary: w)
  case Nil
  show ?case by (simp add: and_then_def)
next
  case (Cons c cs)
  show ?case
    by (cases c; cases "perform c w") (auto simp: Cons.IH and_then_def split: prod.splits)
qed

lemma deposit_call_run:
  "and_then (perform (Adapter_deposit x a) w) (\<lambda>(r, w3). Inr w3)
     = run_calls perform [Adapter_deposit x a] w"
  by (cases "perform (Adapter_deposit x a) w") (auto simp: and_then_def)

lemma withdraw_call_run:
  "and_then (perform (Adapter_withdraw x a) w) (\<lambda>(r, w1). Inr w1)
     = run_calls perform [Adapter_withdraw x a] w"
  by (cases "perform (Adapter_withdraw x a) w") (auto simp: and_then_def)

lemma pull_and_approve_run:
  "and_then (perform (Asset_transferFrom v t a) w)
     (\<lambda>(ok, w1). if \<not> ok then Inl TransferFailed
        else and_then (perform (Asset_approve s a) w1) (\<lambda>(approved, w2). k w2))
   = and_then (run_calls perform [Asset_transferFrom v t a, Asset_approve s a] w) k"
proof (cases "perform (Asset_transferFrom v t a) w")
  case (Inl e)
  then show ?thesis by (simp add: and_then_def)
next
  case (Inr p)
  obtain ok w1 where p: "p = (ok, w1)" by (cases p)
  show ?thesis
    by (cases "perform (Asset_approve s a) w1") (auto simp: Inr p and_then_def)
qed

lemma adapter_dispatch:
  assumes "strategy = aaveAdapter m \<or> strategy = morphoAdapter m
             \<or> strategy = sparkAdapter m \<or> strategy = uniswapAdapter m"
  shows "(if strategy = aaveAdapter m then f (aaveAdapter m) y
          else if strategy = morphoAdapter m then f (morphoAdapter m) y
          else if strategy = sparkAdapter m then f (sparkAdapter m) y
          else if strategy = uniswapAdapter m then f (uniswapAdapter m) y
          else g y) = f strategy y"
  using assms by auto

lemma rebalanceStrategy_runs_venue_calls:
  assumes "strategy = aaveAdapter m \<or> strategy = morphoAdapter m
             \<or> strategy = sparkAdapter m \<or> strategy = uniswapAdapter m"
  shows "rebalanceStrategy perform m strategy current target w
           = run_calls perform (venue_calls m strategy current target) w"
proof -
  note dep = adapter_dispatch [OF assms,
      where f = "\<lambda>x. run_calls perform [Adapter_deposit x (target - current)]"]
  note wd = adapter_dispatch [OF assms,
      where f = "\<lambda>x. run_calls perform [Adapter_withdraw x (current - target)]"]
  consider (up) "target > current" | (down) "target < current" | (same) "target = current"
    by linarith
  then show ?thesis
  proof cases
    case up
    have "rebalanceStrategy perform m strategy current target w
        = and_then (run_calls perform [Asset_transferFrom (vault m) (manager_address m) (target - current),
             Asset_approve strategy (target - current)] w)
            (run_calls perform [Adapter_deposit strategy (target - current)])"
      unfolding rebalanceStrategy_def Let_def deposit_call_run dep
      using up by (simp add: pull_and_approve_run)
    also have "\<dots> = run_calls perform
         ([Asset_transferFrom (vault m) (manager_address m) (target - current),
             Asset_approve strategy (target - current)]
          @ [Adapter_deposit strategy (target - current)]) w"
      by (simp only: run_calls_append)
    also have "\<dots> = run_calls perform (venue_calls m strategy current target) w"
      using up by (simp add: venue_calls_def)
    finally show ?thesis .
  next
    case down
    then show ?thesis
      unfolding rebalanceStrategy_def Let_def withdraw_call_run venue_calls_def wd
      by simp
  next
    case same
    then show ?thesis by (simp add: rebalanceStrategy_def venue_calls_def)
  qed
qed

lemma run_calls_record: "run_calls record_call cs issued = Inr (issued @ cs)"
proof (induction cs arbitrary: issued)
  case Nil
  show ?case by simp
next
  case (Cons c cs)
  show ?case
    by (cases c) (simp_all add: record_call_def Cons.IH [unfolded record_call_def [abs_def]])
qed

text \<open>
  C9. \<^verbatim>\<open>rebalance\<close> called by the owner first computes the four targets
  \<open>floor (totalValue * weight / 10000)\<close>; if one of the checked products overflows it
  reverts before any call. Otherwise it issues, venue by venue in the order Aave, Morpho,
  Spark, Uniswap, exactly the calls of \<open>rebalance_plan\<close>: a deposit of
  \<open>target - current\<close> (after pulling and approving that amount) where the target exceeds
  the balance read, a withdrawal of \<open>current - target\<close> where it is below, nothing where
  they are equal. The first conjunct holds in every world, the second reads off the calls
  issued when all of them succeed.
\<close>

theorem rebalance_issues_plan:
  "rebalance perform (manager_owner m) m totalValue cA cM cS cU w =
     (if totalValue * aave (currentAllocation m) \<le> UINT256_MAX
        \<and> totalValue * morpho (currentAllocation m) \<le> UINT256_MAX
        \<and> totalValue * spark (currentAllocation m) \<le> UINT256_MAX
        \<and> totalValue * uniswap (currentAllocation m) \<le> UINT256_MAX
      then run_calls perform (rebalance_plan m totalValue cA cM cS cU) w
      else Inl Panic_Overflow)
   \<and> rebalance record_call (manager_owner m) m totalValue cA cM cS cU [] =
     (if totalValue * aave (currentAllocation m) \<le> UINT256_MAX
        \<and> totalValue * morpho (currentAllocation m) \<le> UINT256_MAX
        \<and> totalValue * spark (currentAllocation m) \<le> UINT256_MAX
        \<and> totalValue * uniswap (currentAllocation m) \<le> UINT256_MAX
      then Inr (rebalance_plan m totalValue cA cM cS cU)
      else Inl Panic_Overflow)"
proof -
  have target: "and_then (checked_mul totalValue x)
        (\<lambda>p. and_then (checked_div p BASIS_POINTS) k)
      = (if totalValue * x \<le> UINT256_MAX then k (target_amount totalValue x)
         else Inl Panic_Overflow)" for x and k :: "nat \<Rightarrow> error + 'b"
    by (simp add: checked_mul_def checked_div_def BASIS_POINTS_def target_amount_def and_then_def)
  have healthy: "(\<lambda>w4. if isHealthy (manager_address m) then Inr w4 else Inl HealthCheckFailed)
      = Inr"
    by (simp add: isHealthy_def)
  have last: "and_then r Inr = r" for r :: "error + 'b"
    by (cases r) (simp_all add: and_then_def)
  have general: "rebalance perform (manager_owner m) m totalValue cA cM cS cU w =
     (if totalValue * aave (currentAllocation m) \<le> UINT256_MAX
        \<and> totalValue * morpho (currentAllocation m) \<le> UINT256_MAX
        \<and> totalValue * spark (currentAllocation m) \<le> UINT256_MAX
        \<and> totalValue * uniswap (currentAllocation m) \<le> UINT256_MAX
      then run_calls perform (rebalance_plan m totalValue cA cM cS cU) w
      else Inl Panic_Overflow)" for perform :: "ext_call \<Rightarrow> 'b \<Rightarrow> error + bool \<times> 'b" and w
    unfolding rebalance_def target healthy rebalance_plan_def run_calls_append
    by (simp add: rebalanceStrategy_runs_venue_calls last)
  show ?thesis
    using general [of perform w] general [of record_call "[]"]
    by (simp add: run_calls_record)
qed

text \<open>
  The scenario of C9: total value 1000, weights 4000/3000/2000/1000 and four empty venues.
  The calls issued are four deposits of 400, 300, 200 and 100, each preceded by the pull
  from the vault and the approval of the same amount, and no withdrawal.
\<close>

theorem rebalance_issues_plan_witness:
  "rebalance record_call 1 example_manager 1000 0 0 0 0 [] =
     Inr [Asset_transferFrom 2 10 400, Asset_approve 11 400, Adapter_deposit 11 400,
          Asset_transferFrom 2 10 300, Asset_approve 12 300, Adapter_deposit 12 300,
          Asset_transferFrom 2 10 200, Asset_approve 13 200, Adapter_deposit 13 200,
          Asset_transferFrom 2 10 100, Asset_approve 14 100, Adapter_deposit 14 100]"
proof -
  have owner: "manager_owner example_manager = 1"
    by (simp add: example_manager_def fresh_manager_def)
  have plan: "rebalance_plan example_manager 1000 0 0 0 0 =
     [Asset_transferFrom 2 10 400, Asset_approve 11 400, Adapter_deposit 11 400,
      Asset_transferFrom 2 10 300, Asset_approve 12 300, Adapter_deposit 12 300,
      Asset_transferFrom 2 10 200, Asset_approve 13 200, Adapter_deposit 13 200,
      Asset_transferFrom 2 10 100, Asset_approve 14 100, Adapter_deposit 14 100]"
    by (simp add: rebalance_plan_def venue_calls_def target_amount_def example_manager_def
        fresh_manager_def)
  have fits: "1000 * aave (currentAllocation example_manager) \<le> UINT256_MAX
        \<and> 1000 * morpho (currentAllocation example_manager) \<le> UINT256_MAX
        \<and> 1000 * spark (currentAllocation example_manager) \<le> UINT256_MAX
        \<and> 1000 * uniswap (currentAllocation example_manager) \<le> UINT256_MAX"
    by (simp add: example_manager_def fresh_manager_def UINT256_MAX_def)
  show ?thesis
    using rebalance_issues_plan [of record_call example_manager 1000 0 0 0 0 "[]",
        THEN conjunct2] fits
    by (simp add: owner plan)
qed

section \<open>Moving the asset token\<close>

lemma ERC20_transfer_result:
  "ERC20_transfer src dst amount t =
     (if src = 0 then Inl ERC20InvalidSender
      else if dst = 0 then Inl ERC20InvalidReceiver
      else if balances t src < amount then Inl ERC20InsufficientBalance
      else Inr (t\<lparr>balances :=
             ((balances t)(src := balances t src - amount))
               (dst := ((balances t)(src := balances t src - amount)) dst + amount)\<rparr>))"
  by (simp add: ERC20_transfer_def ERC20_transfer_internal_def ERC20_update_def and_then_def)

lemma ERC20_transfer_balance_of_sender:
  assumes "ERC20_transfer src dst amount t = Inr t'"
  shows "balances t' src = (if dst = src then balances t src else balances t src - amount)"
  using assms by (auto simp: ERC20_transfer_result split: if_splits)

lemma ERC20_spendAllowance_balances:
  assumes "ERC20_spendAllowance holder spender amount t = Inr t'"
  shows "balances t' = balances t"
  using assms
  by (auto simp: ERC20_spendAllowance_def ERC20_approve_internal_def Let_def split: if_splits)

lemma ERC20_transferFrom_balance_of_receiver:
  assumes "ERC20_transferFrom msg_sender src dst amount t = Inr t'"
  shows "balances t dst \<le> balances t' dst"
proof -
  from assms obtain t1 where a: "ERC20_spendAllowance src msg_sender amount t = Inr t1"
    and b: "ERC20_transfer src dst amount t1 = Inr t'"
    by (auto simp: ERC20_transferFrom_def ERC20_transfer_def and_then_eq_Inr)
  from b have "balances t1 dst \<le> balances t' dst"
    by (auto simp: ERC20_transfer_result split: if_splits)
  with ERC20_spendAllowance_balances [OF a] show ?thesis by simp
qed


section \<open>The ledger: accumulated yield and its donation\<close>

text \<open>
  C3. \<^verbatim>\<open>getAccumulatedYield\<close> is a \<^verbatim>\<open>view\<close>: the model is a function of the state that
  returns a number and no state, so reading it twice gives the same number and changes
  nothing. The number is the total assets minus the tracked deposits when that is
  positive and 0 otherwise, which is \<open>max 0 (totalValue - totalPrincipal)\<close> over the
  integers.
\<close>

theorem getAccumulatedYield_residual:
  "getAccumulatedYield v =
     (if totalAssets v \<le> totalUserDeposits v then 0 else totalAssets v - totalUserDeposits v)
   \<and> int (getAccumulatedYield v) = max 0 (int (totalAssets v) - int (totalUserDeposits v))"
  by (simp add: getAccumulatedYield_def Let_def)

theorem getAccumulatedYield_residual_witness:
  "getAccumulatedYield yield_vault = 10 \<and> getAccumulatedYield example_vault = 0
   \<and> int (getAccumulatedYield yield_vault) = max 0 (110 - 100)"
  using getAccumulatedYield_residual [of yield_vault]
    getAccumulatedYield_residual [of example_vault]
  by (simp add: yield_vault_def example_vault_def totalAssets_def)

lemma donateYield_gate:
  "donateYield timestamp v =
     (if UINT256_MAX < lastDonationTimestamp v + MIN_DONATION_INTERVAL then Inl Panic_Overflow
      else if timestamp < lastDonationTimestamp v + MIN_DONATION_INTERVAL
        then Inl DonationCooldownNotMet
      else if totalAssets v \<le> totalUserDeposits v then Inr (0, v)
      else and_then (ERC20_transfer (vault_address v) (donationAddress v)
                       (totalAssets v - totalUserDeposits v) (asset_token v))
             (\<lambda>a1. Inr (totalAssets v - totalUserDeposits v,
                         v\<lparr>asset_token := a1, lastDonationTimestamp := timestamp\<rparr>)))"
  by (simp add: donateYield_def checked_add_def and_then_def Let_def not_le)

lemmas example_vaults = fresh_vault_def example_vault_def yield_vault_def withdrawn_vault_def
  self_withdrawn_vault_def pulled_vault_def donated_vault_def self_donating_vault_def

lemmas donateYield_run = donateYield_gate ERC20_transfer_result and_then_def totalAssets_def
  MIN_DONATION_INTERVAL_def UINT256_MAX_def

lemma deposit_example: "deposit 7 100 7 fresh_vault = Inr (100, example_vault)"
  by (simp add: deposit_def ERC4626_deposit_def ERC4626_deposit_internal_def previewDeposit_def
      convertToShares_def mulDiv_def ERC20_transferFrom_def ERC20_spendAllowance_def
      ERC20_transfer_internal_def ERC20_mint_def ERC20_update_def totalAssets_def
      totalSupply_def checked_add_def checked_div_def and_then_def Let_def example_vaults)
    (simp add: UINT256_MAX_def)

lemma yield_example:
  "ERC20_mint 2 10 (asset_token example_vault) = Inr (asset_token yield_vault)"
  by (simp add: ERC20_mint_def ERC20_update_def checked_add_def and_then_def example_vaults)
    (simp add: UINT256_MAX_def)

lemma donateYield_yield_vault: "donateYield 100000 yield_vault = Inr (10, donated_vault)"
  by (simp add: donateYield_run example_vaults)

text \<open>
  C4. Once the cooldown has elapsed (the block time is a \<^verbatim>\<open>uint256\<close>), a call of
  \<^verbatim>\<open>donateYield\<close> on a vault whose total assets do not exceed the tracked deposits
  returns 0 and the state it was given: nothing is written, and
  \<open>lastDonationTimestamp\<close> in particular keeps its value.
\<close>

theorem donateYield_zero_yield_is_noop:
  assumes "lastDonationTimestamp v + MIN_DONATION_INTERVAL \<le> timestamp"
    and "timestamp \<le> UINT256_MAX"
    and "totalAssets v \<le> totalUserDeposits v"
  shows "donateYield timestamp v = Inr (0, v)"
  using assms by (simp add: donateYield_gate)

text \<open>
  In \<open>example_vault\<close> there is no yield at time 100000: the call returns 0 and the same
  state. When 10 of yield arrive (\<open>yield_vault\<close>), a call one second later donates them.
\<close>

theorem donateYield_zero_yield_is_noop_witness:
  "donateYield 100000 example_vault = Inr (0, example_vault)
   \<and> (\<exists>v'. donateYield 100001 yield_vault = Inr (10, v'))"
proof -
  have "donateYield 100000 example_vault = Inr (0, example_vault)"
    using donateYield_zero_yield_is_noop [of example_vault 100000]
    by (simp add: example_vault_def totalAssets_def MIN_DONATION_INTERVAL_def UINT256_MAX_def)
  moreover have "\<exists>v'. donateYield 100001 yield_vault = Inr (10, v')"
    by (simp add: donateYield_run example_vaults)
  ultimately show ?thesis by simp
qed

text \<open>
  C5. For a vault whose \<open>lastDonationTimestamp\<close> is the time of a block (so that adding
  one day to it does not overflow), \<^verbatim>\<open>donateYield\<close> fails with the cooldown error exactly
  when the block time is below \<open>lastDonationTimestamp + MIN_DONATION_INTERVAL\<close>; a failed
  call returns no state, the storage stays as it was. After a call that donated a positive
  amount, every call within the interval fails with the cooldown error.
\<close>

theorem donateYield_cooldown:
  assumes "lastDonationTimestamp v + MIN_DONATION_INTERVAL \<le> UINT256_MAX"
  shows "(donateYield timestamp v = Inl DonationCooldownNotMet)
           = (timestamp < lastDonationTimestamp v + MIN_DONATION_INTERVAL)
    \<and> (\<forall>amount v' later.
          donateYield timestamp v = Inr (amount, v') \<and> 0 < amount
            \<and> timestamp + MIN_DONATION_INTERVAL \<le> UINT256_MAX
            \<and> later < timestamp + MIN_DONATION_INTERVAL
          \<longrightarrow> donateYield later v' = Inl DonationCooldownNotMet)"
proof (intro conjI allI impI)
  show "(donateYield timestamp v = Inl DonationCooldownNotMet)
           = (timestamp < lastDonationTimestamp v + MIN_DONATION_INTERVAL)"
    using assms
    by (auto simp: donateYield_gate ERC20_transfer_result and_then_def split: if_splits)
next
  fix amount v' later
  assume h: "donateYield timestamp v = Inr (amount, v') \<and> 0 < amount
            \<and> timestamp + MIN_DONATION_INTERVAL \<le> UINT256_MAX
            \<and> later < timestamp + MIN_DONATION_INTERVAL"
  then have "lastDonationTimestamp v' = timestamp"
    by (auto simp: donateYield_gate and_then_def split: if_splits sum.splits)
  with h show "donateYield later v' = Inl DonationCooldownNotMet"
    by (simp add: donateYield_gate)
qed

text \<open>
  \<open>yield_vault\<close> last donated at time 1000. A call at time 5000 fails with the cooldown
  error and one at time 87400 does not. The call at time 100000 donates 10 and leaves
  \<open>donated_vault\<close>, on which a call one second later fails with the cooldown error.
\<close>

theorem donateYield_cooldown_witness:
  "donateYield 5000 yield_vault = Inl DonationCooldownNotMet
   \<and> donateYield 87400 yield_vault \<noteq> Inl DonationCooldownNotMet
   \<and> donateYield 100000 yield_vault = Inr (10, donated_vault)
   \<and> donateYield 100001 donated_vault = Inl DonationCooldownNotMet"
proof -
  have fits: "lastDonationTimestamp yield_vault + MIN_DONATION_INTERVAL \<le> UINT256_MAX"
    by (simp add: example_vaults MIN_DONATION_INTERVAL_def UINT256_MAX_def)
  have early: "donateYield 5000 yield_vault = Inl DonationCooldownNotMet"
    using donateYield_cooldown [OF fits, of 5000, THEN conjunct1]
    by (simp add: example_vaults MIN_DONATION_INTERVAL_def)
  have due: "donateYield 87400 yield_vault \<noteq> Inl DonationCooldownNotMet"
    using donateYield_cooldown [OF fits, of 87400, THEN conjunct1]
    by (simp add: example_vaults MIN_DONATION_INTERVAL_def)
  have again: "donateYield 100001 donated_vault = Inl DonationCooldownNotMet"
    using donateYield_cooldown [OF fits, of 100000, THEN conjunct2, rule_format,
        of 10 donated_vault 100001] donateYield_yield_vault
    by (simp add: MIN_DONATION_INTERVAL_def UINT256_MAX_def)
  from early due donateYield_yield_vault again show ?thesis by simp
qed

text \<open>
  C6, as stated, holds for every recipient. The owner of \<open>yield_vault\<close> may name the
  vault itself as the donation address. The donation at time 100000 then returns 10 and
  records the time, but the token moves the 10 from the vault to the vault: the total
  assets stay 110 and the accumulated yield stays 10.
\<close>

theorem donateYield_to_the_vault_itself:
  "setDonationAddress 1 2 yield_vault = Inr self_donating_vault
   \<and> donateYield 100000 self_donating_vault
       = Inr (10, self_donating_vault\<lparr>lastDonationTimestamp := 100000\<rparr>)
   \<and> totalAssets (self_donating_vault\<lparr>lastDonationTimestamp := 100000\<rparr>) = 110
   \<and> getAccumulatedYield (self_donating_vault\<lparr>lastDonationTimestamp := 100000\<rparr>) = 10"
  by (simp add: setDonationAddress_def donateYield_run getAccumulatedYield_def example_vaults)

text \<open>
  C6, amended. When the cooldown has elapsed, the total assets exceed the tracked deposits
  and the donation address is not the vault itself (it is never the zero address, which
  the constructor and \<^verbatim>\<open>setDonationAddress\<close> refuse), \<^verbatim>\<open>donateYield\<close> returns the
  difference, the asset balance of the donation address grows by it, the total assets drop
  by it to the tracked deposits, the accumulated yield afterwards is 0,
  \<open>lastDonationTimestamp\<close> is the block time and the tracked deposits are unchanged.
\<close>

theorem donateYield_positive_yield:
  assumes "lastDonationTimestamp v + MIN_DONATION_INTERVAL \<le> timestamp"
    and "timestamp \<le> UINT256_MAX"
    and "totalUserDeposits v < totalAssets v"
    and "donationAddress v \<noteq> vault_address v"
    and "donationAddress v \<noteq> 0"
    and "vault_address v \<noteq> 0"
  shows "\<exists>v'. donateYield timestamp v = Inr (totalAssets v - totalUserDeposits v, v')
           \<and> balances (asset_token v') (donationAddress v)
               = balances (asset_token v) (donationAddress v)
                   + (totalAssets v - totalUserDeposits v)
           \<and> totalAssets v' = totalAssets v - (totalAssets v - totalUserDeposits v)
           \<and> getAccumulatedYield v' = 0
           \<and> lastDonationTimestamp v' = timestamp
           \<and> totalUserDeposits v' = totalUserDeposits v
           \<and> donationAddress v' = donationAddress v"
  using assms
  by (simp add: donateYield_gate ERC20_transfer_result and_then_def totalAssets_def
      getAccumulatedYield_def)

text \<open>
  The scenario of C6: account 7 deposits 100 into \<open>fresh_vault\<close>, 10 of the asset are
  minted to the vault, and the accumulated yield is 10 (\<open>yield_vault\<close>). The donation at
  time 100000 returns 10, the recipient (account 9) holds 10 more, the total assets are
  100 and no yield is left.
\<close>

theorem donateYield_positive_yield_witness:
  "deposit 7 100 7 fresh_vault = Inr (100, example_vault)
   \<and> ERC20_mint 2 10 (asset_token example_vault) = Inr (asset_token yield_vault)
   \<and> totalAssets yield_vault = 110
   \<and> getAccumulatedYield yield_vault = 10
   \<and> (\<exists>v'. donateYield 100000 yield_vault = Inr (10, v')
       \<and> balances (asset_token v') 9 = balances (asset_token yield_vault) 9 + 10
       \<and> totalAssets v' = 100
       \<and> getAccumulatedYield v' = 0
       \<and> lastDonationTimestamp v' = 100000
       \<and> totalUserDeposits v' = 100)"
proof -
  have facts: "totalAssets yield_vault = 110" "totalUserDeposits yield_vault = 100"
    "donationAddress yield_vault = 9" "vault_address yield_vault = 2"
    "lastDonationTimestamp yield_vault = 1000"
    by (simp_all add: example_vaults totalAssets_def)
  have yield: "getAccumulatedYield yield_vault = 10"
    by (simp add: getAccumulatedYield_def facts)
  from donateYield_positive_yield [of yield_vault 100000]
  obtain v' where "donateYield 100000 yield_vault = Inr (10, v')
       \<and> balances (asset_token v') 9 = balances (asset_token yield_vault) 9 + 10
       \<and> totalAssets v' = 100
       \<and> getAccumulatedYield v' = 0
       \<and> lastDonationTimestamp v' = 100000
       \<and> totalUserDeposits v' = 100"
    by (auto simp: facts MIN_DONATION_INTERVAL_def UINT256_MAX_def)
  with deposit_example yield_example facts(1) yield show ?thesis by blast
qed

section \<open>The ledger: withdrawals\<close>

lemma reduceUserDeposits_result:
  assumes "reduceUserDeposits assets v = Inr v1"
  shows "v1 = v\<lparr>totalUserDeposits :=
            (if 0 < totalAssets v
             then principal_after_withdrawal (totalUserDeposits v) assets (totalAssets v)
             else totalUserDeposits v)\<rparr>"
  using assms
  by (auto simp: reduceUserDeposits_def principal_after_withdrawal_def Let_def
      checked_mul_def checked_div_def and_then_def split: if_splits)

lemma totalAssets_deposits_update [simp]:
  "totalAssets (v\<lparr>totalUserDeposits := d\<rparr>) = totalAssets v"
  by (simp add: totalAssets_def)

lemma previewRedeem_deposits_update [simp]:
  "previewRedeem (v\<lparr>totalUserDeposits := d\<rparr>) shares = previewRedeem v shares"
  by (simp add: previewRedeem_def convertToAssets_def totalAssets_def totalSupply_def)

lemma ERC4626_withdraw_internal_effect:
  assumes "ERC4626_withdraw_internal caller receiver holder assets shares v = Inr v'"
  shows "totalUserDeposits v' = totalUserDeposits v
         \<and> totalAssets v' = (if receiver = vault_address v then totalAssets v
                             else totalAssets v - assets)"
proof -
  from assms obtain s2 a1 where
    a: "ERC20_transfer (vault_address v) receiver assets (asset_token v) = Inr a1"
    and v': "v' = v\<lparr>asset_token := a1, share_token := s2\<rparr>"
    by (auto simp: ERC4626_withdraw_internal_def and_then_eq_Inr)
  show ?thesis
    using ERC20_transfer_balance_of_sender [OF a] by (simp add: v' totalAssets_def)
qed

lemma withdraw_effect:
  assumes "withdraw msg_sender assets receiver holder v = Inr (shares, v')"
    and "0 < totalAssets v"
  shows "totalUserDeposits v'
           = principal_after_withdrawal (totalUserDeposits v) assets (totalAssets v)
         \<and> totalAssets v' = (if receiver = vault_address v then totalAssets v
                             else totalAssets v - assets)"
proof -
  from assms(1) obtain v1 where r: "reduceUserDeposits assets v = Inr v1"
    and w: "ERC4626_withdraw msg_sender assets receiver holder v1 = Inr (shares, v')"
    by (auto simp: withdraw_def and_then_eq_Inr)
  from w obtain sh where
    i: "ERC4626_withdraw_internal msg_sender receiver holder assets sh v1 = Inr v'"
    by (auto simp: ERC4626_withdraw_def and_then_eq_Inr split: if_splits)
  show ?thesis
    using ERC4626_withdraw_internal_effect [OF i] assms(2)
    by (simp add: reduceUserDeposits_result [OF r])
qed

lemma redeem_effect:
  assumes "redeem msg_sender shares receiver holder v = Inr (assets, v')"
    and "0 < totalAssets v"
  shows "previewRedeem v shares = Inr assets
         \<and> totalUserDeposits v'
           = principal_after_withdrawal (totalUserDeposits v) assets (totalAssets v)
         \<and> totalAssets v' = (if receiver = vault_address v then totalAssets v
                             else totalAssets v - assets)"
proof -
  from assms(1) obtain a0 v1 where p: "previewRedeem v shares = Inr a0"
    and r: "reduceUserDeposits a0 v = Inr v1"
    and w: "ERC4626_redeem msg_sender shares receiver holder v1 = Inr (assets, v')"
    by (auto simp: redeem_def and_then_eq_Inr)
  note v1 = reduceUserDeposits_result [OF r]
  from w have p1: "previewRedeem v1 shares = Inr assets"
    and i: "ERC4626_withdraw_internal msg_sender receiver holder assets shares v1 = Inr v'"
    by (auto simp: ERC4626_redeem_def and_then_eq_Inr split: if_splits)
  from p p1 have same: "a0 = assets" by (simp add: v1)
  show ?thesis
    using ERC4626_withdraw_internal_effect [OF i] assms(2) p
    by (simp add: v1 same)
qed

lemmas vault_run = withdraw_def redeem_def reduceUserDeposits_def ERC4626_withdraw_def
  ERC4626_redeem_def ERC4626_withdraw_internal_def maxWithdraw_def maxRedeem_def
  previewWithdraw_def previewRedeem_def convertToShares_def convertToAssets_def mulDiv_def
  totalAssets_def totalSupply_def balanceOf_def ERC20_burn_def ERC20_update_def
  ERC20_transfer_result checked_add_def checked_mul_def checked_div_def and_then_def
  UINT256_MAX_def Let_def

lemma withdraw_example: "withdraw 7 40 7 7 example_vault = Inr (40, withdrawn_vault)"
  by (simp add: vault_run example_vaults)

lemma redeem_example: "redeem 7 40 7 7 example_vault = Inr (40, withdrawn_vault)"
  by (simp add: vault_run example_vaults)

text \<open>
  C7, as stated, lets the total value drop by the amount in every withdrawal. In
  \<open>example_vault\<close> account 7 withdraws 40 and names the vault itself as receiver: the call
  succeeds and burns 40 shares, the tracked deposits drop from 100 to 60, and the total
  assets are 100 before and after, since the token moves the 40 from the vault to the
  vault.
\<close>

theorem withdraw_to_the_vault_itself:
  "withdraw 7 40 2 7 example_vault = Inr (40, self_withdrawn_vault)
   \<and> totalAssets example_vault = 100
   \<and> totalAssets self_withdrawn_vault = 100
   \<and> totalUserDeposits self_withdrawn_vault = 60"
  by (simp add: vault_run example_vaults)

text \<open>
  C7, amended. A successful \<^verbatim>\<open>withdraw\<close> of \<open>assets\<close> from a vault with positive total
  assets leaves the tracked deposits at \<open>principal_after_withdrawal\<close>: reduced by
  \<open>floor (deposits * assets / totalAssets)\<close>, or unchanged if that exceeds them. The total
  assets drop by \<open>assets\<close> when the receiver is not the vault itself, and stay when it is.
  A successful \<^verbatim>\<open>redeem\<close> of \<open>shares\<close> does the same with
  \<open>assets = previewRedeem shares\<close>, the amount it returns.
\<close>

theorem withdrawal_ledger_effect:
  "(withdraw msg_sender assets receiver holder v = Inr (shares, v') \<and> 0 < totalAssets v
      \<longrightarrow> totalUserDeposits v'
             = principal_after_withdrawal (totalUserDeposits v) assets (totalAssets v)
          \<and> totalAssets v' = (if receiver = vault_address v then totalAssets v
                              else totalAssets v - assets))
   \<and> (redeem msg_sender shares receiver holder v = Inr (assets, v') \<and> 0 < totalAssets v
      \<longrightarrow> previewRedeem v shares = Inr assets
          \<and> totalUserDeposits v'
             = principal_after_withdrawal (totalUserDeposits v) assets (totalAssets v)
          \<and> totalAssets v' = (if receiver = vault_address v then totalAssets v
                              else totalAssets v - assets))"
  using withdraw_effect [of msg_sender assets receiver holder v shares v']
    redeem_effect [of msg_sender shares receiver holder v assets v']
  by blast

text \<open>
  In \<open>example_vault\<close> (total assets 100, tracked deposits 100) account 7 withdraws 40 to
  itself, or redeems 40 shares: the tracked deposits drop by \<open>floor (100 * 40 / 100) = 40\<close>
  and the total assets by 40.
\<close>

theorem withdrawal_ledger_effect_witness:
  "withdraw 7 40 7 7 example_vault = Inr (40, withdrawn_vault)
   \<and> redeem 7 40 7 7 example_vault = Inr (40, withdrawn_vault)
   \<and> totalAssets example_vault = 100
   \<and> totalUserDeposits withdrawn_vault = principal_after_withdrawal 100 40 100
   \<and> principal_after_withdrawal 100 40 100 = 60
   \<and> totalAssets withdrawn_vault = 100 - 40"
proof -
  have facts: "totalAssets example_vault = 100" "totalUserDeposits example_vault = 100"
    "vault_address example_vault = 2"
    by (simp_all add: example_vaults totalAssets_def)
  have "totalUserDeposits withdrawn_vault = principal_after_withdrawal 100 40 100
      \<and> totalAssets withdrawn_vault = 100 - 40"
    using withdrawal_ledger_effect
      [of 7 40 7 7 example_vault 40 withdrawn_vault, THEN conjunct1] withdraw_example
    by (simp add: facts)
  moreover have "principal_after_withdrawal 100 40 100 = 60"
    by (simp add: principal_after_withdrawal_def)
  ultimately show ?thesis
    using withdraw_example redeem_example by (simp add: facts)
qed


section \<open>The ledger: which calls lower the total assets\<close>

lemma ERC4626_deposit_internal_totalAssets:
  assumes "ERC4626_deposit_internal caller receiver assets shares v = Inr v'"
  shows "totalAssets v \<le> totalAssets v'"
proof -
  from assms obtain a1 s1 where
    a: "ERC20_transferFrom (vault_address v) caller (vault_address v) assets (asset_token v)
          = Inr a1"
    and v': "v' = v\<lparr>asset_token := a1, share_token := s1\<rparr>"
    by (auto simp: ERC4626_deposit_internal_def and_then_eq_Inr)
  show ?thesis
    using ERC20_transferFrom_balance_of_receiver [OF a] by (simp add: v' totalAssets_def)
qed

lemma deposit_totalAssets:
  assumes "deposit msg_sender assets receiver v = Inr (shares, v')"
  shows "totalAssets v \<le> totalAssets v'"
proof -
  from assms obtain sh v1 d where
    i: "ERC4626_deposit_internal msg_sender receiver assets sh v = Inr v1"
    and v': "v' = v1\<lparr>totalUserDeposits := d\<rparr>"
    by (auto simp: deposit_def ERC4626_deposit_def and_then_eq_Inr split: if_splits)
  show ?thesis using ERC4626_deposit_internal_totalAssets [OF i] by (simp add: v')
qed

lemma mint_totalAssets:
  assumes "mint msg_sender shares receiver v = Inr (assets, v')"
  shows "totalAssets v \<le> totalAssets v'"
proof -
  from assms obtain a v1 d where
    i: "ERC4626_deposit_internal msg_sender receiver a shares v = Inr v1"
    and v': "v' = v1\<lparr>totalUserDeposits := d\<rparr>"
    by (auto simp: mint_def ERC4626_mint_def and_then_eq_Inr split: if_splits)
  show ?thesis using ERC4626_deposit_internal_totalAssets [OF i] by (simp add: v')
qed

lemma donateYield_keeps_deposits:
  assumes "donateYield timestamp v = Inr (amount, v')"
  shows "totalUserDeposits v' = totalUserDeposits v"
  using assms by (auto simp: donateYield_gate and_then_eq_Inr split: if_splits)

lemma transferToStrategyManager_keeps_deposits:
  assumes "transferToStrategyManager msg_sender amount v = Inr v'"
  shows "totalUserDeposits v' = totalUserDeposits v"
  using assms by (auto simp: transferToStrategyManager_def and_then_eq_Inr split: if_splits)

lemma inherited_calls_keep_totalAssets:
  assumes "transfer msg_sender dst amount v = Inr v'
         \<or> approve msg_sender spender amount v = Inr v'
         \<or> transferFrom msg_sender src dst amount v = Inr v'
         \<or> transferOwnership msg_sender newOwner v = Inr v'
         \<or> renounceOwnership msg_sender v = Inr v'
         \<or> setDonationAddress msg_sender newAddress v = Inr v'"
  shows "totalAssets v' = totalAssets v"
  using assms
  by (auto simp: transfer_def approve_def transferFrom_def transferOwnership_def
      renounceOwnership_def setDonationAddress_def totalAssets_def and_then_eq_Inr
      split: if_splits)

text \<open>
  C2, as stated, names \<^verbatim>\<open>donateYield\<close> as the only call that lowers the total assets
  without the principal reduction of a withdrawal. The owner (account 1) of
  \<open>example_vault\<close> pulls 40 with \<^verbatim>\<open>transferToStrategyManager\<close>: the total assets drop from
  100 to 60 and the tracked deposits stay 100.
\<close>

theorem transferToStrategyManager_lowers_totalAssets:
  "execute 1 5000 (TransferToStrategyManager 40) example_vault = Inr pulled_vault
   \<and> totalAssets example_vault = 100
   \<and> totalAssets pulled_vault = 60
   \<and> totalUserDeposits example_vault = 100
   \<and> totalUserDeposits pulled_vault = 100"
  by (simp add: execute_def transferToStrategyManager_def ERC20_transfer_result and_then_def
      totalAssets_def example_vaults)

text \<open>
  C2, amended. Of all the calls the vault exposes, a successful one that lowers the total
  assets is \<^verbatim>\<open>donateYield\<close> or \<^verbatim>\<open>transferToStrategyManager\<close>, which both leave the
  tracked deposits as they are, or it is a \<^verbatim>\<open>withdraw\<close> or a \<^verbatim>\<open>redeem\<close>, which leave
  them at \<open>principal_after_withdrawal\<close> for the assets paid out. No other call lowers the
  total assets.
\<close>

theorem calls_lowering_totalAssets:
  assumes "execute msg_sender timestamp call v = Inr v'"
    and "totalAssets v' < totalAssets v"
  shows "(call = DonateYield \<and> totalUserDeposits v' = totalUserDeposits v)
       \<or> (\<exists>amount. call = TransferToStrategyManager amount
             \<and> totalUserDeposits v' = totalUserDeposits v)
       \<or> (\<exists>assets receiver holder. call = Withdraw assets receiver holder
             \<and> totalUserDeposits v'
                 = principal_after_withdrawal (totalUserDeposits v) assets (totalAssets v))
       \<or> (\<exists>shares receiver holder assets. call = Redeem shares receiver holder
             \<and> previewRedeem v shares = Inr assets
             \<and> totalUserDeposits v'
                 = principal_after_withdrawal (totalUserDeposits v) assets (totalAssets v))"
proof -
  from assms(2) have positive: "0 < totalAssets v" by simp
  show ?thesis
  proof (cases call)
    case (Deposit assets receiver)
    with assms(1) obtain r where "deposit msg_sender assets receiver v = Inr (r, v')"
      by (auto simp: execute_def and_then_eq_Inr)
    from deposit_totalAssets [OF this] assms(2) show ?thesis by simp
  next
    case (Mint shares receiver)
    with assms(1) obtain r where "mint msg_sender shares receiver v = Inr (r, v')"
      by (auto simp: execute_def and_then_eq_Inr)
    from mint_totalAssets [OF this] assms(2) show ?thesis by simp
  next
    case (Withdraw assets receiver holder)
    with assms(1) obtain r where "withdraw msg_sender assets receiver holder v = Inr (r, v')"
      by (auto simp: execute_def and_then_eq_Inr)
    from withdraw_effect [OF this positive] Withdraw show ?thesis by simp
  next
    case (Redeem shares receiver holder)
    with assms(1) obtain r where "redeem msg_sender shares receiver holder v = Inr (r, v')"
      by (auto simp: execute_def and_then_eq_Inr)
    from redeem_effect [OF this positive] Redeem show ?thesis by simp
  next
    case DonateYield
    with assms(1) obtain r where "donateYield timestamp v = Inr (r, v')"
      by (auto simp: execute_def and_then_eq_Inr)
    from donateYield_keeps_deposits [OF this] DonateYield show ?thesis by simp
  next
    case (SetDonationAddress newAddress)
    with assms(1) have "setDonationAddress msg_sender newAddress v = Inr v'"
      by (simp add: execute_def)
    with inherited_calls_keep_totalAssets [of msg_sender _ _ v v' _ _ _ newAddress] assms(2)
    show ?thesis by simp
  next
    case (TransferToStrategyManager amount)
    with assms(1) have "transferToStrategyManager msg_sender amount v = Inr v'"
      by (simp add: execute_def)
    from transferToStrategyManager_keeps_deposits [OF this] TransferToStrategyManager
    show ?thesis by simp
  next
    case (Transfer dst amount)
    with assms(1) have "transfer msg_sender dst amount v = Inr v'"
      by (simp add: execute_def)
    with inherited_calls_keep_totalAssets [of msg_sender dst amount v v'] assms(2)
    show ?thesis by simp
  next
    case (Approve spender amount)
    with assms(1) have "approve msg_sender spender amount v = Inr v'"
      by (simp add: execute_def)
    with inherited_calls_keep_totalAssets [of msg_sender _ amount v v' spender] assms(2)
    show ?thesis by simp
  next
    case (TransferFrom src dst amount)
    with assms(1) have "transferFrom msg_sender src dst amount v = Inr v'"
      by (simp add: execute_def)
    with inherited_calls_keep_totalAssets [of msg_sender dst amount v v' _ src] assms(2)
    show ?thesis by simp
  next
    case (TransferOwnership newOwner)
    with assms(1) have "transferOwnership msg_sender newOwner v = Inr v'"
      by (simp add: execute_def)
    with inherited_calls_keep_totalAssets [of msg_sender _ _ v v' _ _ newOwner] assms(2)
    show ?thesis by simp
  next
    case RenounceOwnership
    with assms(1) have "renounceOwnership msg_sender v = Inr v'"
      by (simp add: execute_def)
    with inherited_calls_keep_totalAssets [of msg_sender _ _ v v'] assms(2)
    show ?thesis by simp
  qed
qed

text \<open>
  The withdrawal of 40 from \<open>example_vault\<close> lowers the total assets from 100 to 60, and
  the tracked deposits are those of the withdrawal rule.
\<close>

theorem calls_lowering_totalAssets_witness:
  "execute 7 5000 (Withdraw 40 7 7) example_vault = Inr withdrawn_vault
   \<and> totalAssets withdrawn_vault < totalAssets example_vault
   \<and> totalUserDeposits withdrawn_vault
       = principal_after_withdrawal (totalUserDeposits example_vault) 40
           (totalAssets example_vault)"
proof -
  have run: "execute 7 5000 (Withdraw 40 7 7) example_vault = Inr withdrawn_vault"
    by (simp add: execute_def withdraw_example and_then_def)
  have lower: "totalAssets withdrawn_vault < totalAssets example_vault"
    by (simp add: example_vaults totalAssets_def)
  from calls_lowering_totalAssets [OF run lower] run lower show ?thesis by simp
qed

end
